theory Spec2Isabelle
  imports Complex_Main
begin

section \<open>JSON values and the JavaScript operations the dashboard applies to them\<close>

text \<open>
  The dashboard (\<^verbatim>\<open>dashboard.js\<close>) receives the body of \<^verbatim>\<open>GET /api/current\<close> through
  \<^verbatim>\<open>response.json()\<close> and reads it with property accesses, truthiness tests and
  \<^verbatim>\<open>Object.entries\<close>. A parsed body is a JSON value. An object is the list of its own
  properties in enumeration order; a number is its exact value (a JSON number is finite,
  so every parsed number is a rational).
\<close>

datatype json =
    JNull
  | JBool bool
  | JNum rat
  | JStr string
  | JArr "json list"
  | JObj "(string \<times> json) list"

text \<open>A JavaScript value read from a parsed body: \<open>None\<close> is \<^verbatim>\<open>undefined\<close>.\<close>

type_synonym jsval = "json option"

text \<open>
  Exceptions. \<open>Error m\<close> is \<^verbatim>\<open>new Error(m)\<close> thrown by the program itself. The others are
  raised by the runtime: \<open>SyntaxError\<close> by \<^verbatim>\<open>response.json()\<close> on a body that is not JSON,
  \<open>FetchFailure\<close> by a rejected \<^verbatim>\<open>fetch\<close>, \<open>TypeError\<close> by a property read on
  \<^verbatim>\<open>null\<close>/\<^verbatim>\<open>undefined\<close> or a call of something that is not a function.
\<close>

datatype type_error = NullRead string | NotCallable string

datatype js_error =
    Error string
  | SyntaxError string
  | FetchFailure string
  | TypeError type_error

text \<open>
  What the source leaves to the JavaScript engine is a parameter of the model: the text of
  the message of a \<^verbatim>\<open>TypeError\<close> (it differs between engines), and the outcome of the
  comparison \<^verbatim>\<open>v > 0\<close> for a \<open>v\<close> that is a string, an array or an object (the engine
  converts \<open>v\<close> to a number first).
\<close>

record engine =
  type_error_msg :: "type_error \<Rightarrow> string"
  loose_gt_zero :: "json \<Rightarrow> bool"

text \<open>\<^verbatim>\<open>err.message\<close>.\<close>

fun message :: "engine \<Rightarrow> js_error \<Rightarrow> string" where
  "message eng (Error m) = m"
| "message eng (SyntaxError m) = m"
| "message eng (FetchFailure m) = m"
| "message eng (TypeError t) = type_error_msg eng t"

text \<open>JavaScript truthiness (\<^verbatim>\<open>if (v)\<close>, \<^verbatim>\<open>v && e\<close>, \<^verbatim>\<open>v || e\<close>).\<close>

fun truthy :: "jsval \<Rightarrow> bool" where
  "truthy None = False"
| "truthy (Some JNull) = False"
| "truthy (Some (JBool b)) = b"
| "truthy (Some (JNum n)) = (n \<noteq> 0)"
| "truthy (Some (JStr s)) = (s \<noteq> [])"
| "truthy (Some (JArr xs)) = True"
| "truthy (Some (JObj kvs)) = True"

text \<open>
  The property read \<^verbatim>\<open>v.k\<close>, for the names the dashboard reads (\<^verbatim>\<open>suggest_admin\<close>,
  \<^verbatim>\<open>diagnostics\<close>, \<^verbatim>\<open>system_info\<close>, \<^verbatim>\<open>analysis\<close>, \<^verbatim>\<open>status\<close>, \<^verbatim>\<open>warnings\<close>,
  \<^verbatim>\<open>length\<close>): none of them is inherited from a prototype, except \<^verbatim>\<open>length\<close> of an
  array or a string. Reading a property of \<^verbatim>\<open>null\<close> or \<^verbatim>\<open>undefined\<close> throws.
\<close>

fun get_prop :: "jsval \<Rightarrow> string \<Rightarrow> js_error + jsval" where
  "get_prop None k = Inl (TypeError (NullRead k))"
| "get_prop (Some JNull) k = Inl (TypeError (NullRead k))"
| "get_prop (Some (JObj kvs)) k = Inr (map_of kvs k)"
| "get_prop (Some (JArr xs)) k =
     Inr (if k = ''length'' then Some (JNum (of_nat (length xs))) else None)"
| "get_prop (Some (JStr s)) k =
     Inr (if k = ''length'' then Some (JNum (of_nat (length s))) else None)"
| "get_prop (Some (JBool b)) k = Inr None"
| "get_prop (Some (JNum n)) k = Inr None"

text \<open>\<^verbatim>\<open>s.includes(t)\<close>: \<open>t\<close> occurs in \<open>s\<close> as a contiguous substring.\<close>

fun includes_str :: "string \<Rightarrow> string \<Rightarrow> bool" where
  "includes_str [] t = (t = [])"
| "includes_str (c # cs) t = (take (length t) (c # cs) = t \<or> includes_str cs t)"

section \<open>The network as the component sees it\<close>

datatype http_method = GET | POST

type_synonym request = "http_method \<times> string"

text \<open>
  \<^verbatim>\<open>response.json()\<close> either rejects with a \<^verbatim>\<open>SyntaxError\<close> (the body is not JSON; the
  message is the engine's) or resolves with the parsed value.
\<close>

datatype body_json = Malformed string | Parsed json

record response =
  status :: nat
  body :: body_json

text \<open>\<^verbatim>\<open>response.ok\<close>: by the Fetch standard, true exactly for a status from 200 to 299.\<close>

definition ok :: "response \<Rightarrow> bool" where
  "ok r = (200 \<le> status r \<and> status r \<le> 299)"

text \<open>
  An awaited \<^verbatim>\<open>fetch\<close> settles: it rejects (network failure, with the engine's message)
  or resolves with a response. The network answers a request given the requests sent
  before it.
\<close>

datatype fetch_outcome = Rejected string | Resolved response

type_synonym network = "request list \<Rightarrow> request \<Rightarrow> fetch_outcome"

definition response_json :: "response \<Rightarrow> js_error + json" where
  "response_json r = (case body r of Malformed m \<Rightarrow> Inl (SyntaxError m) | Parsed v \<Rightarrow> Inr v)"

section \<open>The SystemMonitor component: state, fetchData, handleRetryWithAdmin\<close>

text \<open>
  The three \<^verbatim>\<open>useState\<close> cells of \<^verbatim>\<open>SystemMonitor\<close> (\<open>data\<close> starts as \<^verbatim>\<open>null\<close>,
  \<open>loading\<close> as \<^verbatim>\<open>true\<close>, \<open>error\<close> as \<^verbatim>\<open>null\<close>), and the log of the requests the
  component has sent, oldest first.
\<close>

record monitor =
  data :: json
  loading :: bool
  error :: "string option"
  sent :: "request list"

definition initial :: monitor where
  "initial = \<lparr>data = JNull, loading = True, error = None, sent = []\<rparr>"

definition api_current :: request where
  "api_current = (GET, ''/api/current'')"

definition retry_with_admin :: request where
  "retry_with_admin = (GET, ''/retry_with_admin'')"

definition admin_required :: string where
  "admin_required = ''Administrative privileges required''"

definition fetch_failed :: string where
  "fetch_failed = ''Failed to fetch system data''"

definition admin_failed :: string where
  "admin_failed = ''Failed to obtain administrative access''"

text \<open>\<^verbatim>\<open>await fetch(url)\<close>: the request is logged and the network's answer returned.\<close>

definition fetch :: "network \<Rightarrow> request \<Rightarrow> monitor \<Rightarrow> fetch_outcome \<times> monitor" where
  "fetch net rq s = (net (sent s) rq, s\<lparr>sent := sent s @ [rq]\<rparr>)"

text \<open>
  The \<^verbatim>\<open>try\<close> block of \<^verbatim>\<open>fetchData\<close> from the settled \<^verbatim>\<open>fetch\<close> on: \<open>Inl\<close> is the
  exception it throws, \<open>Inr\<close> the parsed body handed to \<^verbatim>\<open>setData\<close>. The condition
  \<^verbatim>\<open>status === 401 || (status === 500 && (await response.json()).suggest_admin)\<close>
  evaluates left to right and parses the body only when the status is 500.
\<close>

definition fetchData_try :: "fetch_outcome \<Rightarrow> js_error + json" where
  "fetchData_try outcome =
     (case outcome of
        Rejected m \<Rightarrow> Inl (FetchFailure m)
      | Resolved r \<Rightarrow>
          if \<not> ok r then
            (if status r = 401 then Inl (Error admin_required)
             else if status r = 500 then
               (case response_json r of
                  Inl e \<Rightarrow> Inl e
                | Inr parsed \<Rightarrow>
                    (case get_prop (Some parsed) ''suggest_admin'' of
                       Inl e \<Rightarrow> Inl e
                     | Inr flag \<Rightarrow>
                         if truthy flag then Inl (Error admin_required)
                         else Inl (Error fetch_failed)))
             else Inl (Error fetch_failed))
          else response_json r)"

text \<open>
  \<^verbatim>\<open>fetchData\<close>: \<^verbatim>\<open>setLoading(true)\<close>, the request, then either \<^verbatim>\<open>setData(result);
  setError(null)\<close> or, in the \<^verbatim>\<open>catch\<close>, \<^verbatim>\<open>setError(err.message)\<close>; the \<^verbatim>\<open>finally\<close>
  block runs \<^verbatim>\<open>setLoading(false)\<close> on both paths. \<open>fetchData_begin\<close> is the part that
  runs before the \<^verbatim>\<open>await\<close> yields, \<open>fetchData_resume\<close> the part that runs once the
  request has settled.
\<close>

definition fetchData_begin :: "network \<Rightarrow> monitor \<Rightarrow> fetch_outcome \<times> monitor" where
  "fetchData_begin net s = fetch net api_current (s\<lparr>loading := True\<rparr>)"

definition fetchData_resume :: "engine \<Rightarrow> fetch_outcome \<Rightarrow> monitor \<Rightarrow> monitor" where
  "fetchData_resume eng outcome s =
     (case fetchData_try outcome of
        Inr result \<Rightarrow> s\<lparr>data := result, error := None\<rparr>
      | Inl err \<Rightarrow> s\<lparr>error := Some (message eng err)\<rparr>)\<lparr>loading := False\<rparr>"

definition fetchData :: "engine \<Rightarrow> network \<Rightarrow> monitor \<Rightarrow> monitor" where
  "fetchData eng net s =
     (case fetchData_begin net s of (outcome, s') \<Rightarrow> fetchData_resume eng outcome s')"

text \<open>
  \<^verbatim>\<open>handleRetryWithAdmin\<close>: one request to \<^verbatim>\<open>/retry_with_admin\<close>; \<^verbatim>\<open>fetchData()\<close> is
  called when the response is ok (it is not awaited, and it catches its own exceptions,
  so nothing it does reaches this handler's \<^verbatim>\<open>catch\<close>); a rejected request sets the error.
\<close>

definition handleRetryWithAdmin :: "engine \<Rightarrow> network \<Rightarrow> monitor \<Rightarrow> monitor" where
  "handleRetryWithAdmin eng net s =
     (case fetch net retry_with_admin s of
        (Rejected m, s') \<Rightarrow> s'\<lparr>error := Some admin_failed\<rparr>
      | (Resolved r, s') \<Rightarrow> if ok r then fetchData eng net s' else s')"

section \<open>What SystemMonitor renders\<close>

text \<open>
  The element tree the component function returns. \<open>Shown e\<close> and \<open>Skipped v\<close> are the
  two results of the JSX idiom \<^verbatim>\<open>{v && e}\<close>: the element when \<open>v\<close> is truthy, the falsy
  value \<open>v\<close> itself otherwise. \<open>InfoRow key value\<close> is the row
  \<^verbatim>\<open><div key={key}><span>{key}: </span>{String(value)}</div>\<close>; \<open>WarningsList\<close> holds
  the \<^verbatim>\<open><li key={idx}>{warning}</li>\<close> items in order; \<open>AnalysisView status w\<close> is the
  block with \<^verbatim>\<open>Status: {data.analysis.status}\<close>; \<open>ErrorAlert message button\<close> is the alert
  showing \<^verbatim>\<open>{error}\<close>, with the "Retry with Admin Privileges" button when \<open>button\<close>.
\<close>

datatype 'a guarded = Skipped jsval | Shown 'a

datatype info_row = InfoRow string json

datatype warnings_view = WarningsList "(nat \<times> json) list"

datatype analysis_view = AnalysisView jsval "warnings_view guarded"

datatype diagnostics_view = DiagnosticsView "info_row list" "analysis_view guarded"

datatype view =
    Loader
  | ErrorAlert string bool
  | DiagnosticsCard "diagnostics_view guarded"

text \<open>Sequencing of steps that may throw.\<close>

definition and_then :: "js_error + 'a \<Rightarrow> ('a \<Rightarrow> js_error + 'b) \<Rightarrow> js_error + 'b" where
  "and_then r f = (case r of Inl e \<Rightarrow> Inl e | Inr x \<Rightarrow> f x)"

text \<open>The decimal numeral of an array index, as \<^verbatim>\<open>Object.entries\<close> names it.\<close>

fun decimal :: "nat \<Rightarrow> string" where
  "decimal n =
     (if n < 10 then [''0123456789'' ! n]
      else decimal (n div 10) @ [''0123456789'' ! (n mod 10)])"

declare decimal.simps [simp del]

text \<open>
  \<^verbatim>\<open>Object.entries(v)\<close> for a truthy \<open>v\<close>: the own enumerable properties; the indexed
  elements of an array or of a string; nothing for a number or \<^verbatim>\<open>true\<close>.
\<close>

fun object_entries :: "json \<Rightarrow> (string \<times> json) list" where
  "object_entries (JObj kvs) = kvs"
| "object_entries (JArr xs) = zip (map decimal [0..<length xs]) xs"
| "object_entries (JStr s) = zip (map decimal [0..<length s]) (map (\<lambda>c. JStr [c]) s)"
| "object_entries v = []"

text \<open>\<^verbatim>\<open>v || {}\<close>.\<close>

definition or_empty_object :: "jsval \<Rightarrow> json" where
  "or_empty_object v = (case v of Some x \<Rightarrow> if truthy v then x else JObj [] | None \<Rightarrow> JObj [])"

text \<open>
  \<^verbatim>\<open>v > 0\<close>: false for \<^verbatim>\<open>undefined\<close> (it converts to NaN) and \<^verbatim>\<open>null\<close> (to 0), a
  boolean converts to 0 or 1, a number compares as it is; the rest is the engine's.
\<close>

fun gt_zero :: "engine \<Rightarrow> jsval \<Rightarrow> bool" where
  "gt_zero eng None = False"
| "gt_zero eng (Some JNull) = False"
| "gt_zero eng (Some (JBool b)) = b"
| "gt_zero eng (Some (JNum n)) = (0 < n)"
| "gt_zero eng (Some v) = loose_gt_zero eng v"

text \<open>\<^verbatim>\<open>w?.length\<close>: \<^verbatim>\<open>undefined\<close> when \<open>w\<close> is \<^verbatim>\<open>null\<close> or \<^verbatim>\<open>undefined\<close>.\<close>

definition optional_length :: "jsval \<Rightarrow> js_error + jsval" where
  "optional_length w = (if w = None \<or> w = Some JNull then Inr None else get_prop w ''length'')"

text \<open>
  \<^verbatim>\<open>w.map((warning, idx) => <li key={idx}>{warning}</li>)\<close>: only an array has a
  \<^verbatim>\<open>map\<close> method; on any other value of a parsed body the call throws a \<^verbatim>\<open>TypeError\<close>.
\<close>

definition map_warnings :: "jsval \<Rightarrow> js_error + warnings_view" where
  "map_warnings w =
     (case w of
        Some (JArr xs) \<Rightarrow> Inr (WarningsList (zip [0..<length xs] xs))
      | _ \<Rightarrow> Inl (TypeError (NotCallable ''map'')))"

text \<open>\<^verbatim>\<open>{data.analysis.warnings?.length > 0 && (<div> ... </div>)}\<close>\<close>

definition render_warnings :: "engine \<Rightarrow> jsval \<Rightarrow> js_error + warnings_view guarded" where
  "render_warnings eng analysis =
     and_then (get_prop analysis ''warnings'') (\<lambda>warnings.
     and_then (optional_length warnings) (\<lambda>len.
       if gt_zero eng len then
         and_then (map_warnings warnings) (\<lambda>items. Inr (Shown items))
       else Inr (Skipped (Some (JBool False)))))"

text \<open>\<^verbatim>\<open>{data.analysis && (<div> ... Status: {data.analysis.status} ... </div>)}\<close>\<close>

definition render_analysis :: "engine \<Rightarrow> json \<Rightarrow> js_error + analysis_view guarded" where
  "render_analysis eng d =
     and_then (get_prop (Some d) ''analysis'') (\<lambda>analysis.
       if truthy analysis then
         and_then (get_prop analysis ''status'') (\<lambda>status.
         and_then (render_warnings eng analysis) (\<lambda>w.
           Inr (Shown (AnalysisView status w))))
       else Inr (Skipped analysis))"

text \<open>
  The body of \<^verbatim>\<open>{data && (...)}\<close> for a truthy \<open>data\<close>: the rows of
  \<^verbatim>\<open>Object.entries(data.diagnostics.system_info || {})\<close>, then the analysis block.
\<close>

definition render_diagnostics :: "engine \<Rightarrow> json \<Rightarrow> js_error + diagnostics_view" where
  "render_diagnostics eng d =
     and_then (get_prop (Some d) ''diagnostics'') (\<lambda>diagnostics.
     and_then (get_prop diagnostics ''system_info'') (\<lambda>system_info.
     and_then (render_analysis eng d) (\<lambda>a.
       Inr (DiagnosticsView
              (map (\<lambda>(key, value). InfoRow key value)
                 (object_entries (or_empty_object system_info)))
              a))))"

text \<open>
  The component function after its hooks: the spinner while \<open>loading\<close>, the alert when
  \<open>error\<close> is truthy (a non-empty string), the diagnostics card otherwise. \<open>Inl\<close> is an
  exception thrown while rendering.
\<close>

definition render_card :: "engine \<Rightarrow> json \<Rightarrow> js_error + view" where
  "render_card eng d =
     (if truthy (Some d) then
        and_then (render_diagnostics eng d) (\<lambda>c. Inr (DiagnosticsCard (Shown c)))
      else Inr (DiagnosticsCard (Skipped (Some d))))"

definition render :: "engine \<Rightarrow> monitor \<Rightarrow> js_error + view" where
  "render eng s =
     (if loading s then Inr Loader
      else
        (case error s of
           None \<Rightarrow> render_card eng (data s)
         | Some m \<Rightarrow>
             if m \<noteq> [] then Inr (ErrorAlert m (includes_str m ''Administrative privileges''))
             else render_card eng (data s)))"


section \<open>Mounting: the effect, the interval timer and the click\<close>

text \<open>
  The page the component lives in: the component's state, a clock in milliseconds, and
  the browser's interval timers. Time moves in steps of one millisecond (\<open>tick\<close>); a
  timer registered at time \<open>t\<close> with delay \<open>d\<close> is due at \<open>t + d\<close>, \<open>t + 2d\<close>, ... until it
  is cleared. The only function the source hands to \<^verbatim>\<open>setInterval\<close> is \<^verbatim>\<open>fetchData\<close>.
  A request is sent at the moment \<^verbatim>\<open>fetchData\<close> is called; the model lets it settle
  before the next event.
\<close>

datatype callback = FetchData

record timer =
  timer_id :: nat
  handler :: callback
  delay :: nat
  due :: nat

record page =
  component :: monitor
  clock :: nat
  next_id :: nat
  intervals :: "timer list"
  cleanup :: "nat option"

definition setInterval :: "callback \<Rightarrow> nat \<Rightarrow> page \<Rightarrow> nat \<times> page" where
  "setInterval cb d w =
     (next_id w,
      w\<lparr>next_id := next_id w + 1,
        intervals := intervals w @
          [\<lparr>timer_id = next_id w, handler = cb, delay = d, due = clock w + d\<rparr>]\<rparr>)"

definition clearInterval :: "nat \<Rightarrow> page \<Rightarrow> page" where
  "clearInterval i w = w\<lparr>intervals := filter (\<lambda>t. timer_id t \<noteq> i) (intervals w)\<rparr>"

fun invoke :: "engine \<Rightarrow> network \<Rightarrow> callback \<Rightarrow> page \<Rightarrow> page" where
  "invoke eng net FetchData w = w\<lparr>component := fetchData eng net (component w)\<rparr>"

text \<open>
  The effect \<^verbatim>\<open>useEffect(() => { fetchData(); const interval = setInterval(fetchData,
  5000); return () => clearInterval(interval); }, [])\<close>: with the empty dependency list
  its body runs when the component mounts and the function it returns when the component
  unmounts.
\<close>

definition mount :: "engine \<Rightarrow> network \<Rightarrow> page \<Rightarrow> page" where
  "mount eng net w =
     (case setInterval FetchData 5000 (invoke eng net FetchData w) of
        (interval, w') \<Rightarrow> w'\<lparr>cleanup := Some interval\<rparr>)"

definition unmount :: "page \<Rightarrow> page" where
  "unmount w =
     (case cleanup w of
        None \<Rightarrow> w
      | Some interval \<Rightarrow> (clearInterval interval w)\<lparr>cleanup := None\<rparr>)"

text \<open>One millisecond passes: the timers now due fire in registration order.\<close>

definition tick :: "engine \<Rightarrow> network \<Rightarrow> page \<Rightarrow> page" where
  "tick eng net w =
     (let now = clock w + 1;
          fired = filter (\<lambda>t. due t = now) (intervals w);
          w' = w\<lparr>clock := now,
                 intervals := map (\<lambda>t. if due t = now then t\<lparr>due := now + delay t\<rparr> else t)
                                (intervals w)\<rparr>
      in fold (invoke eng net) (map handler fired) w')"

fun advance :: "engine \<Rightarrow> network \<Rightarrow> nat \<Rightarrow> page \<Rightarrow> page" where
  "advance eng net 0 w = w"
| "advance eng net (Suc n) w = advance eng net n (tick eng net w)"





definition fresh_page :: page where
  "fresh_page = \<lparr>component = initial, clock = 0, next_id = 1, intervals = [], cleanup = None\<rparr>"

section \<open>The static panels of SystemMonitorDashboard\<close>

text \<open>
  \<^verbatim>\<open>SystemMonitorDashboard\<close> keeps \<^verbatim>\<open>systemData\<close> in a \<^verbatim>\<open>useState\<close> cell whose setter is
  never called, so the panels always show the initial literal. A number is its exact value.
  The field \<^verbatim>\<open>usage\<close> of a disk entry is \<open>disk_usage\<close> here (\<open>usage\<close> is the CPU's).
\<close>

record cpu_data =
  usage :: rat
  temperature :: rat

record memory_data =
  used :: rat
  total :: rat

record disk_data =
  name :: string
  disk_usage :: rat

record network_data =
  download :: rat
  upload :: rat

record system_data =
  cpu :: cpu_data
  memory :: memory_data
  disk :: "disk_data list"
  network :: network_data

definition systemData :: system_data where
  "systemData =
     \<lparr>cpu = \<lparr>usage = 45, temperature = 62\<rparr>,
      memory = \<lparr>used = 65, total = 16\<rparr>,
      disk = [\<lparr>name = ''C:'', disk_usage = 75\<rparr>, \<lparr>name = ''D:'', disk_usage = 40\<rparr>],
      network = \<lparr>download = 85, upload = 45\<rparr>\<rparr>"

text \<open>
  The \<^verbatim>\<open>className\<close> of the CPU badge, of the memory badge and of a disk's bar, as the
  template literals compute them.
\<close>

definition cpu_badge_class :: "system_data \<Rightarrow> string" where
  "cpu_badge_class sd =
     ''px-2 py-1 rounded '' @
       (if usage (cpu sd) > 80 then ''bg-red-100 text-red-600''
        else ''bg-green-100 text-green-600'')"

definition memory_badge_class :: "system_data \<Rightarrow> string" where
  "memory_badge_class sd =
     ''px-2 py-1 rounded '' @
       (if used (memory sd) > 80 then ''bg-red-100 text-red-600''
        else ''bg-green-100 text-green-600'')"

definition disk_bar_class :: "disk_data \<Rightarrow> string" where
  "disk_bar_class d =
     ''h-2.5 rounded-full '' @ (if disk_usage d > 80 then ''bg-red-500'' else ''bg-green-500'')"

text \<open>The disk panel: one bar per entry of \<^verbatim>\<open>systemData.disk\<close>, in order.\<close>

definition disk_bars :: "system_data \<Rightarrow> (string \<times> rat \<times> string) list" where
  "disk_bars sd = map (\<lambda>d. (name d, disk_usage d, disk_bar_class d)) (disk sd)"

text \<open>An element is highlighted in red when its class names a red colour.\<close>

definition red :: "string \<Rightarrow> bool" where
  "red cls = includes_str cls ''-red-''"

text \<open>The sample \<^verbatim>\<open>.env\<close> of the README sets \<^verbatim>\<open>CPU_USAGE_MAX=90\<close>.\<close>

definition CPU_USAGE_MAX :: rat where
  "CPU_USAGE_MAX = 90"

section \<open>AlertDispatcher\<close>

text \<open>
  Modelled from the spec: the AlertDispatcher (\<^verbatim>\<open>alerts.py\<close> in the README's list of
  components) is not among the source files, so \<open>dispatch\<close> and the Scheduler's sequence
  of cycles follow sections 2, 3, 4.5, 4.7 and 8 of the specification. The spec does not
  say how the breached (category, severity) pairs are read off an AnalysisResult, what an
  alert's message is, nor which channel the AlertRecord of a breach names: the three are
  parameters (\<open>breaches_of\<close>, \<open>describe\<close>, \<open>channel_of\<close>). AlertRecords are deduplicated
  by their \<open>dedup_key\<close>: a new breach yields one AlertRecord, and none when its channel is
  disabled. The outcome of a delivery is not modelled.
\<close>

datatype category = CPU | Memory | Disk | Network | Sensors

datatype severity = Warning | Critical

datatype analysis_status = StatusOk | StatusWarning | StatusCritical

type_synonym breach = "category \<times> severity"

record AnalysisResult =
  result_status :: analysis_status
  result_warnings :: "string list"
  evaluated_at :: nat

datatype channel = Email | Webhook

record AlertRecord =
  alert_channel :: channel
  alert_message :: string
  dedup_key :: breach
  sent_at :: nat

record dispatcher =
  breaches_of :: "AnalysisResult \<Rightarrow> breach list"
  describe :: "breach \<Rightarrow> string"
  channel_of :: "breach \<Rightarrow> channel"
  email_enabled :: bool
  webhook_enabled :: bool

text \<open>Modelled from the spec: "Disabled channels (per Configuration) are skipped entirely."\<close>

fun channel_enabled :: "dispatcher \<Rightarrow> channel \<Rightarrow> bool" where
  "channel_enabled d Email = email_enabled d"
| "channel_enabled d Webhook = webhook_enabled d"

text \<open>
  Modelled from the spec: the pairs that were "already warning/critical in \<open>previous\<close>";
  none when there is no previous result.
\<close>

definition previously_breached :: "dispatcher \<Rightarrow> AnalysisResult option \<Rightarrow> breach list" where
  "previously_breached d previous = (case previous of None \<Rightarrow> [] | Some r \<Rightarrow> breaches_of d r)"

text \<open>
  Modelled from the spec: "Alerts fire only on new breaches relative to the previous
  cycle's result"; the records are deduplicated by (category, severity).
\<close>

definition new_breaches :: "dispatcher \<Rightarrow> AnalysisResult \<Rightarrow> AnalysisResult option \<Rightarrow> breach list" where
  "new_breaches d result previous =
     remdups (filter (\<lambda>p. p \<notin> set (previously_breached d previous)) (breaches_of d result))"

text \<open>
  Modelled from the spec: \<^verbatim>\<open>dispatch(result, previous) -> sequence of AlertRecord\<close>, at
  the time \<open>now\<close>: one AlertRecord for each new breach whose channel is enabled.
\<close>

definition dispatch ::
  "dispatcher \<Rightarrow> nat \<Rightarrow> AnalysisResult \<Rightarrow> AnalysisResult option \<Rightarrow> AlertRecord list" where
  "dispatch d now result previous =
     map (\<lambda>p. \<lparr>alert_channel = channel_of d p, alert_message = describe d p,
                dedup_key = p, sent_at = now\<rparr>)
       (filter (\<lambda>p. channel_enabled d (channel_of d p)) (new_breaches d result previous))"

text \<open>
  Modelled from the spec: the Scheduler runs the AlertDispatcher on each cycle's result,
  "comparing against the previous cached AnalysisResult"; the records of consecutive
  cycles, each given with its time.
\<close>

fun cycles :: "dispatcher \<Rightarrow> AnalysisResult option \<Rightarrow> (nat \<times> AnalysisResult) list \<Rightarrow> AlertRecord list" where
  "cycles d previous [] = []"
| "cycles d previous ((now, result) # rest) =
     dispatch d now result previous @ cycles d (Some result) rest"

text \<open>The AlertRecords for one (category, severity) pair.\<close>

definition records_for :: "breach \<Rightarrow> AlertRecord list \<Rightarrow> AlertRecord list" where
  "records_for p recs = filter (\<lambda>a. dedup_key a = p) recs"

section \<open>The server behind the two endpoints\<close>

text \<open>
  Modelled from the spec: the route layer and the pipeline behind it (\<^verbatim>\<open>app.py\<close> and the
  backend of the README) are not among the source files, so the server follows sections
  4.1, 4.6, 4.7 and 6 of the specification. What a collection cycle produces, how the
  cached pair and the result of an escalation are marshalled into responses, and whether
  the host grants an escalation are parameters (\<open>collect_and_analyze\<close>, \<open>respond\<close>,
  \<open>escalation_response\<close>, \<open>host_prompt\<close>).
\<close>

record PrivilegeState =
  granted :: bool
  last_attempt :: "nat option"
  last_error :: "string option"

record 'p backend =
  collect_and_analyze :: "PrivilegeState \<Rightarrow> nat \<Rightarrow> 'p"
  respond :: "'p \<Rightarrow> response"
  escalation_response :: "bool \<Rightarrow> response"
  host_prompt :: "nat \<Rightarrow> string option"

text \<open>
  Modelled from the spec: the SnapshotCache (empty before the first completed cycle), the
  PrivilegeState, the number of collection cycles run so far, and the server's clock.
\<close>

record 'p server =
  snapshot_cache :: "'p option"
  privilege :: PrivilegeState
  cycles_run :: nat
  server_time :: nat

text \<open>
  Modelled from the spec, section 4.1: \<^verbatim>\<open>request_escalation()\<close>. Already granted: returns
  at once without a prompt. Otherwise the host is prompted (\<open>None\<close>: granted, \<open>Some e\<close>:
  the EscalationError); success sets \<open>granted\<close> and the time, failure records \<open>last_error\<close>
  and leaves \<open>granted\<close> false.
\<close>

definition request_escalation :: "'p backend \<Rightarrow> 'p server \<Rightarrow> bool \<times> 'p server" where
  "request_escalation b sv =
     (if granted (privilege sv) then (True, sv)
      else
        (case host_prompt b (server_time sv) of
           None \<Rightarrow>
             (True, sv\<lparr>privilege := (privilege sv)\<lparr>granted := True,
                          last_attempt := Some (server_time sv)\<rparr>\<rparr>)
         | Some e \<Rightarrow>
             (False, sv\<lparr>privilege := (privilege sv)\<lparr>granted := False,
                           last_attempt := Some (server_time sv), last_error := Some e\<rparr>\<rparr>)))"

text \<open>
  Modelled from the spec, section 4.7: one tick of the Scheduler after \<open>dt\<close> milliseconds,
  the only place a collection cycle runs: collect, analyze, replace the cache.
\<close>

definition scheduler_tick :: "'p backend \<Rightarrow> nat \<Rightarrow> 'p server \<Rightarrow> 'p server" where
  "scheduler_tick b dt sv =
     sv\<lparr>server_time := server_time sv + dt,
        snapshot_cache := Some (collect_and_analyze b (privilege sv) (server_time sv + dt)),
        cycles_run := cycles_run sv + 1\<rparr>"

text \<open>The "not ready" response (HTTP 503-equivalent) and the response to an unknown path.\<close>

definition not_ready_response :: response where
  "not_ready_response = \<lparr>status = 503, body = Parsed (JObj [(''error'', JStr ''not ready'')])\<rparr>"

definition not_found_response :: response where
  "not_found_response = \<lparr>status = 404, body = Parsed (JObj [(''error'', JStr ''not found'')])\<rparr>"

text \<open>
  Modelled from the spec, section 6: \<^verbatim>\<open>/api/current\<close> only reads the SnapshotCache;
  \<^verbatim>\<open>/retry_with_admin\<close> ("POST or equivalent": the route is matched by its path) invokes
  \<^verbatim>\<open>request_escalation()\<close> and returns success or failure.
\<close>

definition serve :: "'p backend \<Rightarrow> 'p server \<Rightarrow> request \<Rightarrow> response \<times> 'p server" where
  "serve b sv rq =
     (if snd rq = ''/api/current'' then
        (case snapshot_cache sv of
           None \<Rightarrow> (not_ready_response, sv)
         | Some pair \<Rightarrow> (respond b pair, sv))
      else if snd rq = ''/retry_with_admin'' then
        (case request_escalation b sv of (success, sv') \<Rightarrow> (escalation_response b success, sv'))
      else (not_found_response, sv))"

text \<open>
  The server as the component's network while no Scheduler tick falls between the
  requests: each request is answered by the server in the state the earlier requests
  left it in.
\<close>

fun serve_all :: "'p backend \<Rightarrow> 'p server \<Rightarrow> request list \<Rightarrow> 'p server" where
  "serve_all b sv [] = sv"
| "serve_all b sv (rq # rqs) = serve_all b (snd (serve b sv rq)) rqs"

definition server_network :: "'p backend \<Rightarrow> 'p server \<Rightarrow> network" where
  "server_network b sv = (\<lambda>history rq. Resolved (fst (serve b (serve_all b sv history) rq)))"

section \<open>The claims' own notions and the inputs used to evaluate the model\<close>

text \<open>
  The condition the specification gives for the escalation signal: the status is 401, or
  the status is 500 and the parsed JSON body's \<^verbatim>\<open>suggest_admin\<close> field is truthy.
\<close>

definition needs_admin :: "response \<Rightarrow> bool" where
  "needs_admin r =
     (status r = 401 \<or>
      (status r = 500 \<and>
       (case body r of
          Malformed m \<Rightarrow> False
        | Parsed v \<Rightarrow>
            (case get_prop (Some v) ''suggest_admin'' of
               Inl e \<Rightarrow> False
             | Inr flag \<Rightarrow> truthy flag))))"

text \<open>
  Success of \<^verbatim>\<open>fetchData\<close>: the request resolved with an ok response whose body is
  JSON; the value is the parsed body.
\<close>

definition success_body :: "fetch_outcome \<Rightarrow> json option" where
  "success_body outcome =
     (case outcome of
        Rejected m \<Rightarrow> None
      | Resolved r \<Rightarrow>
          if ok r then (case body r of Malformed m \<Rightarrow> None | Parsed v \<Rightarrow> Some v) else None)"

text \<open>
  The body of a successful \<^verbatim>\<open>GET /api/current\<close> as the specification gives it:
  \<^verbatim>\<open>{ diagnostics: { system_info, metrics }, analysis: { status, warnings } }\<close>.
\<close>

definition api_body :: "(string \<times> json) list \<Rightarrow> json \<Rightarrow> json \<Rightarrow> json list \<Rightarrow> json" where
  "api_body system_info metrics st ws =
     JObj [(''diagnostics'', JObj [(''system_info'', JObj system_info), (''metrics'', metrics)]),
           (''analysis'', JObj [(''status'', st), (''warnings'', JArr ws)])]"

text \<open>
  The state of a page \<open>n\<close> milliseconds after the component mounted on the page \<open>w\<close>
  with a timer of delay \<open>d\<close>: the one timer, next due at the next multiple of \<open>d\<close>, and
  one request for the mount and one for each multiple of \<open>d\<close> passed.
\<close>

definition polling :: "nat \<Rightarrow> page \<Rightarrow> nat \<Rightarrow> page \<Rightarrow> bool" where
  "polling d w n w' \<longleftrightarrow>
     clock w' = clock w + n \<and>
     intervals w' = [\<lparr>timer_id = next_id w, handler = FetchData, delay = d,
                      due = clock w + d * (n div d + 1)\<rparr>] \<and>
     cleanup w' = Some (next_id w) \<and>
     sent (component w') = sent (component w) @ replicate (1 + n div d) api_current"

text \<open>
  An engine to evaluate the model with. The inputs evaluated below never reach
  \<open>loose_gt_zero\<close>.
\<close>

definition sample_engine :: engine where
  "sample_engine =
     \<lparr>type_error_msg = (\<lambda>t. case t of
          NullRead k \<Rightarrow> ''Cannot read properties of null (reading '' @ k @ '')''
        | NotCallable f \<Rightarrow> f @ '' is not a function''),
      loose_gt_zero = (\<lambda>v. False)\<rparr>"

text \<open>A network that answers every request with the same outcome.\<close>

definition always :: "fetch_outcome \<Rightarrow> network" where
  "always outcome = (\<lambda>history rq. outcome)"

definition unauthorized :: response where
  "unauthorized = \<lparr>status = 401, body = Parsed (JObj [(''error'', JStr ''Unauthorized'')])\<rparr>"

definition not_ready :: response where
  "not_ready = \<lparr>status = 503, body = Parsed (JObj [(''error'', JStr ''not ready'')])\<rparr>"

definition elevation_suggested :: response where
  "elevation_suggested =
     \<lparr>status = 500,
      body = Parsed (JObj [(''error'', JStr ''permission denied''), (''suggest_admin'', JBool True)])\<rparr>"

text \<open>A 500 whose body is an HTML error page, and the engine's message for parsing it.\<close>

definition unexpected_token :: string where
  "unexpected_token = ''Unexpected token < in JSON at position 0''"

definition html_error_page :: response where
  "html_error_page = \<lparr>status = 500, body = Malformed unexpected_token\<rparr>"

definition sample_body :: json where
  "sample_body =
     api_body [(''os'', JStr ''Linux''), (''hostname'', JStr ''sentinel'')]
       (JObj [(''cpu'', JNum 95)]) (JStr ''warning'') [JStr ''High CPU usage: 95%'']"

definition current_ok :: response where
  "current_ok = \<lparr>status = 200, body = Parsed sample_body\<rparr>"

text \<open>
  A dispatcher with both channels enabled that reads a CPU warning off a result whose
  status is \<open>StatusWarning\<close> and sends it by email; such a result, and a result with no
  breach.
\<close>

definition sample_dispatcher :: dispatcher where
  "sample_dispatcher =
     \<lparr>breaches_of = (\<lambda>r. if result_status r = StatusWarning then [(CPU, Warning)] else []),
      describe = (\<lambda>p. ''threshold exceeded''),
      channel_of = (\<lambda>p. Email),
      email_enabled = True,
      webhook_enabled = True\<rparr>"

definition cpu_warning :: AnalysisResult where
  "cpu_warning =
     \<lparr>result_status = StatusWarning, result_warnings = [''High CPU usage: 95%''],
      evaluated_at = 0\<rparr>"

definition all_clear :: AnalysisResult where
  "all_clear = \<lparr>result_status = StatusOk, result_warnings = [], evaluated_at = 0\<rparr>"

text \<open>
  A backend whose cached pair is the response body, whose host grants every escalation,
  and a server of it that has run one cycle.
\<close>

definition sample_backend :: "json backend" where
  "sample_backend =
     \<lparr>collect_and_analyze = (\<lambda>priv t. sample_body),
      respond = (\<lambda>pair. \<lparr>status = 200, body = Parsed pair\<rparr>),
      escalation_response = (\<lambda>success.
        \<lparr>status = (if success then 200 else 403),
         body = Parsed (JObj [(''success'', JBool success)])\<rparr>),
      host_prompt = (\<lambda>t. None)\<rparr>"

definition sample_server :: "json server" where
  "sample_server =
     \<lparr>snapshot_cache = Some sample_body,
      privilege = \<lparr>granted = False, last_attempt = None, last_error = None\<rparr>,
      cycles_run = 1,
      server_time = 5000\<rparr>"


section \<open>fetchData\<close>

lemma fetchData_unfold:
  "fetchData eng net s =
     fetchData_resume eng (net (sent s) api_current)
       (s\<lparr>loading := True, sent := sent s @ [api_current]\<rparr>)"
  by (simp add: fetchData_def fetchData_begin_def fetch_def)

lemma sent_fetchData: "sent (fetchData eng net s) = sent s @ [api_current]"
  by (simp add: fetchData_unfold fetchData_resume_def split: sum.splits)

lemma loading_fetchData: "loading (fetchData eng net s) = False"
  by (simp add: fetchData_unfold fetchData_resume_def split: sum.splits)

lemma get_prop_Inl:
  "get_prop (Some v) k = Inl e \<longleftrightarrow> v = JNull \<and> e = TypeError (NullRead k)"
  by (cases v) auto

lemma requests_distinct: "api_current \<noteq> retry_with_admin"
  by (simp add: api_current_def retry_with_admin_def)

lemma messages_distinct:
  "unexpected_token \<noteq> admin_required" "unexpected_token \<noteq> fetch_failed"
  by (simp_all add: unexpected_token_def admin_required_def fetch_failed_def)

text \<open>
  C1. For a non-ok response to \<^verbatim>\<open>GET /api/current\<close>, \<^verbatim>\<open>fetchData\<close> leaves the error
  "Administrative privileges required" if and only if the status is 401, or the status
  is 500 and the parsed body's \<^verbatim>\<open>suggest_admin\<close> is truthy; and in both cases the
  resulting state is the same one, whatever else the response holds: the two conditions
  are one user-facing condition. The messages the engine gives its own exceptions (a body
  that is not JSON, a body that is \<^verbatim>\<open>null\<close>) are taken to differ from the program's
  message.
\<close>

theorem fetchData_escalation_signal:
  assumes "net (sent s) api_current = Resolved r" and "\<not> ok r"
    and "body r \<noteq> Malformed admin_required"
    and "type_error_msg eng (NullRead ''suggest_admin'') \<noteq> admin_required"
  shows "(error (fetchData eng net s) = Some admin_required \<longleftrightarrow> needs_admin r) \<and>
         (needs_admin r \<longrightarrow>
            fetchData eng net s =
              s\<lparr>loading := False, error := Some admin_required,
                sent := sent s @ [api_current]\<rparr>)"
  using assms
  by (auto simp: fetchData_unfold fetchData_resume_def fetchData_try_def needs_admin_def
      response_json_def admin_required_def fetch_failed_def get_prop_Inl
      split: body_json.splits sum.splits)

text \<open>
  The theorem at a 500 response whose body has \<^verbatim>\<open>suggest_admin: true\<close> and at a 401
  response: both leave the same state.
\<close>

theorem fetchData_escalation_signal_witness:
  "\<not> ok elevation_suggested \<and> needs_admin elevation_suggested \<and>
   \<not> ok unauthorized \<and> needs_admin unauthorized \<and>
   error (fetchData sample_engine (always (Resolved elevation_suggested)) initial) =
     Some admin_required \<and>
   fetchData sample_engine (always (Resolved elevation_suggested)) initial =
     fetchData sample_engine (always (Resolved unauthorized)) initial"
proof -
  have e: "\<not> ok elevation_suggested" "needs_admin elevation_suggested"
    "body elevation_suggested \<noteq> Malformed admin_required"
    by (simp_all add: elevation_suggested_def ok_def needs_admin_def)
  have u: "\<not> ok unauthorized" "needs_admin unauthorized"
    "body unauthorized \<noteq> Malformed admin_required"
    by (simp_all add: unauthorized_def ok_def needs_admin_def)
  have m: "type_error_msg sample_engine (NullRead ''suggest_admin'') \<noteq> admin_required"
    by (simp add: sample_engine_def admin_required_def)
  have "always (Resolved elevation_suggested) (sent initial) api_current =
          Resolved elevation_suggested"
    by (simp add: always_def)
  note a = fetchData_escalation_signal
    [where net = "always (Resolved elevation_suggested)" and s = initial, OF this e(1) e(3) m]
  have "always (Resolved unauthorized) (sent initial) api_current = Resolved unauthorized"
    by (simp add: always_def)
  note b = fetchData_escalation_signal
    [where net = "always (Resolved unauthorized)" and s = initial, OF this u(1) u(3) m]
  from a b e u show ?thesis by simp
qed

text \<open>
  C8. When \<^verbatim>\<open>GET /api/current\<close> returns status 500 with a body that is not JSON, the
  \<^verbatim>\<open>response.json()\<close> inside the status check throws: the error displayed is the parse
  exception's message \<open>m\<close>, neither of the program's two messages, and \<open>loading\<close> ends
  false.
\<close>

theorem fetchData_malformed_500:
  assumes "net (sent s) api_current = Resolved r" and "status r = 500"
    and "body r = Malformed m" and "m \<noteq> admin_required" and "m \<noteq> fetch_failed"
  shows "error (fetchData eng net s) = Some m \<and>
         error (fetchData eng net s) \<noteq> Some admin_required \<and>
         error (fetchData eng net s) \<noteq> Some fetch_failed \<and>
         loading (fetchData eng net s) = False"
  using assms
  by (simp add: fetchData_unfold fetchData_resume_def fetchData_try_def response_json_def ok_def)

theorem fetchData_malformed_500_witness:
  "status html_error_page = 500 \<and> body html_error_page = Malformed unexpected_token \<and>
   error (fetchData sample_engine (always (Resolved html_error_page)) initial) =
     Some unexpected_token \<and>
   loading (fetchData sample_engine (always (Resolved html_error_page)) initial) = False"
proof -
  have "always (Resolved html_error_page) (sent initial) api_current = Resolved html_error_page"
    by (simp add: always_def)
  from fetchData_malformed_500
    [where net = "always (Resolved html_error_page)" and s = initial and eng = sample_engine,
      OF this _ _ messages_distinct]
  show ?thesis by (simp add: html_error_page_def)
qed

text \<open>
  C3. The claim: every non-ok response that is neither a 401 nor a 500 with a truthy
  \<^verbatim>\<open>suggest_admin\<close> leaves the error "Failed to fetch system data", with \<open>loading\<close>
  false. A 500 whose body is an HTML error page is such a response, and the error it
  leaves is the parse exception's message instead.
\<close>

theorem fetchData_html_error_page:
  "\<not> ok html_error_page \<and> \<not> needs_admin html_error_page \<and>
   error (fetchData sample_engine (always (Resolved html_error_page)) initial) =
     Some ''Unexpected token < in JSON at position 0'' \<and>
   error (fetchData sample_engine (always (Resolved html_error_page)) initial) \<noteq>
     Some fetch_failed \<and>
   loading (fetchData sample_engine (always (Resolved html_error_page)) initial) = False"
  by (simp add: fetchData_unfold fetchData_resume_def fetchData_try_def response_json_def
      ok_def needs_admin_def html_error_page_def always_def unexpected_token_def
      fetch_failed_def)

text \<open>
  On every other non-ok response outside the escalation condition the error is "Failed to
  fetch system data": any status but 401 and 500 (503 among them), and a 500 whose body
  parses to a value other than \<^verbatim>\<open>null\<close>.
\<close>

lemma fetchData_fetch_failed:
  assumes "net (sent s) api_current = Resolved r" and "\<not> ok r" and "\<not> needs_admin r"
    and "status r = 500 \<longrightarrow> (\<exists>v. body r = Parsed v \<and> v \<noteq> JNull)"
  shows "error (fetchData eng net s) = Some fetch_failed \<and> loading (fetchData eng net s) = False"
  using assms
  by (auto simp: fetchData_unfold fetchData_resume_def fetchData_try_def needs_admin_def
      response_json_def get_prop_Inl split: sum.splits)

lemma fetchData_not_ready:
  "error (fetchData eng (always (Resolved not_ready)) s) = Some fetch_failed \<and>
   loading (fetchData eng (always (Resolved not_ready)) s) = False"
  by (rule fetchData_fetch_failed [where r = not_ready])
     (simp_all add: always_def not_ready_def ok_def needs_admin_def)

text \<open>
  C9. Every call of \<^verbatim>\<open>fetchData\<close> ends with \<open>loading\<close> false. On success (an ok
  response with a JSON body) \<open>data\<close> is the parsed body and \<open>error\<close> is \<^verbatim>\<open>null\<close>; on every
  failure \<open>data\<close> keeps its previous value and an error message is recorded.
\<close>

theorem fetchData_outcome:
  "loading (fetchData eng net s) = False \<and>
   (case success_body (net (sent s) api_current) of
      Some v \<Rightarrow> data (fetchData eng net s) = v \<and> error (fetchData eng net s) = None
    | None \<Rightarrow> data (fetchData eng net s) = data s \<and>
        (\<exists>m. error (fetchData eng net s) = Some m))"
  by (auto simp: fetchData_unfold fetchData_resume_def fetchData_try_def success_body_def
      response_json_def
      split: body_json.splits sum.splits fetch_outcome.splits option.splits)

section \<open>handleRetryWithAdmin\<close>

lemma handleRetryWithAdmin_client:
  "count_list (sent (handleRetryWithAdmin eng net s)) retry_with_admin =
     count_list (sent s) retry_with_admin + 1 \<and>
   (case net (sent s) retry_with_admin of
      Rejected m \<Rightarrow>
        handleRetryWithAdmin eng net s =
          s\<lparr>sent := sent s @ [retry_with_admin], error := Some admin_failed\<rparr>
    | Resolved r \<Rightarrow>
        if ok r then
          handleRetryWithAdmin eng net s =
            fetchData eng net (s\<lparr>sent := sent s @ [retry_with_admin]\<rparr>) \<and>
          sent (handleRetryWithAdmin eng net s) = sent s @ [retry_with_admin, api_current]
        else handleRetryWithAdmin eng net s = s\<lparr>sent := sent s @ [retry_with_admin]\<rparr>)"
  using requests_distinct
  by (auto simp: handleRetryWithAdmin_def fetch_def sent_fetchData split: fetch_outcome.splits)

lemma request_escalation_keeps_cache:
  "snapshot_cache (snd (request_escalation b sv)) = snapshot_cache sv \<and>
   cycles_run (snd (request_escalation b sv)) = cycles_run sv"
  by (simp add: request_escalation_def split: option.splits)

lemma serve_keeps_cache:
  "snapshot_cache (snd (serve b sv rq)) = snapshot_cache sv \<and>
   cycles_run (snd (serve b sv rq)) = cycles_run sv"
  using request_escalation_keeps_cache [of b sv]
  by (cases "request_escalation b sv") (auto simp: serve_def split: option.splits)

lemma serve_all_keeps_cache:
  "snapshot_cache (serve_all b sv rqs) = snapshot_cache sv \<and>
   cycles_run (serve_all b sv rqs) = cycles_run sv"
  by (induction rqs arbitrary: sv) (simp_all add: serve_keeps_cache)

lemma serve_api_current:
  "fst (serve b sv api_current) =
     (case snapshot_cache sv of None \<Rightarrow> not_ready_response | Some pair \<Rightarrow> respond b pair)"
  by (simp add: serve_def api_current_def split: option.splits)

text \<open>
  C2. \<^verbatim>\<open>handleRetryWithAdmin\<close> sends exactly one request to \<^verbatim>\<open>/retry_with_admin\<close>. When
  the response is ok it goes on as \<^verbatim>\<open>fetchData\<close> does, so the requests sent are that one
  and then one \<^verbatim>\<open>GET /api/current\<close>; when the response is not ok nothing else happens;
  when the request is rejected the error becomes "Failed to obtain administrative access"
  and nothing else is sent. On the server, the escalation request runs no collection
  cycle: it leaves the number of cycles run and the SnapshotCache as they were, so a
  poll right after it is answered as a poll before it would have been, and whatever the
  handler sends, the server has run no cycle for it; only a Scheduler tick runs one.
\<close>

theorem handleRetryWithAdmin_no_cycle:
  "count_list (sent (handleRetryWithAdmin eng net s)) retry_with_admin =
     count_list (sent s) retry_with_admin + 1 \<and>
   (case net (sent s) retry_with_admin of
      Rejected m \<Rightarrow>
        handleRetryWithAdmin eng net s =
          s\<lparr>sent := sent s @ [retry_with_admin], error := Some admin_failed\<rparr>
    | Resolved r \<Rightarrow>
        if ok r then
          handleRetryWithAdmin eng net s =
            fetchData eng net (s\<lparr>sent := sent s @ [retry_with_admin]\<rparr>) \<and>
          sent (handleRetryWithAdmin eng net s) = sent s @ [retry_with_admin, api_current]
        else handleRetryWithAdmin eng net s = s\<lparr>sent := sent s @ [retry_with_admin]\<rparr>) \<and>
   cycles_run (snd (serve b sv retry_with_admin)) = cycles_run sv \<and>
   snapshot_cache (snd (serve b sv retry_with_admin)) = snapshot_cache sv \<and>
   fst (serve b (snd (serve b sv retry_with_admin)) api_current) =
     fst (serve b sv api_current) \<and>
   cycles_run (serve_all b sv (sent (handleRetryWithAdmin eng (server_network b sv) s))) =
     cycles_run sv \<and>
   cycles_run (scheduler_tick b dt sv) = cycles_run sv + 1"
proof -
  have "fst (serve b (snd (serve b sv retry_with_admin)) api_current) =
      fst (serve b sv api_current)"
    by (simp only: serve_api_current serve_keeps_cache)
  moreover have "cycles_run (scheduler_tick b dt sv) = cycles_run sv + 1"
    by (simp add: scheduler_tick_def)
  ultimately show ?thesis
    using handleRetryWithAdmin_client [of eng net s]
    by (simp only: serve_keeps_cache serve_all_keeps_cache simp_thms)
qed

text \<open>
  The theorem on a server that has run one cycle and grants the escalation: the handler
  sends the escalation request and then the poll, the poll shows the cached body, the
  privilege is granted, and still one cycle has run.
\<close>

theorem handleRetryWithAdmin_no_cycle_witness:
  "sent (handleRetryWithAdmin sample_engine (server_network sample_backend sample_server)
      initial) = [retry_with_admin, api_current] \<and>
   data (handleRetryWithAdmin sample_engine (server_network sample_backend sample_server)
      initial) = sample_body \<and>
   granted (privilege (snd (serve sample_backend sample_server retry_with_admin))) \<and>
   cycles_run (snd (serve sample_backend sample_server retry_with_admin)) = 1 \<and>
   cycles_run (serve_all sample_backend sample_server
     (sent (handleRetryWithAdmin sample_engine (server_network sample_backend sample_server)
        initial))) = 1 \<and>
   cycles_run (scheduler_tick sample_backend 5000 sample_server) = 2"
proof -
  let ?net = "server_network sample_backend sample_server"
  let ?h = "handleRetryWithAdmin sample_engine ?net initial"
  note t = handleRetryWithAdmin_no_cycle
    [of sample_engine ?net initial sample_backend sample_server 5000]
  have r: "?net (sent initial) retry_with_admin =
      Resolved \<lparr>status = 200, body = Parsed (JObj [(''success'', JBool True)])\<rparr>"
    by (simp add: server_network_def serve_def request_escalation_def sample_backend_def
        sample_server_def initial_def retry_with_admin_def)
  have o: "ok \<lparr>status = 200, body = Parsed (JObj [(''success'', JBool True)])\<rparr>"
    by (simp add: ok_def)
  have i: "sent initial = []" by (simp add: initial_def)
  have g: "granted (privilege (snd (serve sample_backend sample_server retry_with_admin)))"
    by (simp add: serve_def request_escalation_def sample_backend_def sample_server_def
        retry_with_admin_def)
  have c: "cycles_run sample_server = 1" by (simp add: sample_server_def)
  have p: "?net [retry_with_admin] api_current =
      Resolved \<lparr>status = 200, body = Parsed sample_body\<rparr>"
    by (simp add: server_network_def serve_def request_escalation_def sample_backend_def
        sample_server_def retry_with_admin_def api_current_def)
  have d: "data (fetchData sample_engine ?net
      (initial\<lparr>sent := sent initial @ [retry_with_admin]\<rparr>)) = sample_body"
    using p
    by (simp add: fetchData_unfold fetchData_resume_def fetchData_try_def response_json_def
        ok_def i)
  from t have h: "?h = fetchData sample_engine ?net
      (initial\<lparr>sent := sent initial @ [retry_with_admin]\<rparr>)"
    and hs: "sent ?h = sent initial @ [retry_with_admin, api_current]"
    by (simp_all add: r o sent_fetchData)
  from h d have hd: "data ?h = sample_body" by simp
  from hs i have hs': "sent ?h = [retry_with_admin, api_current]" by simp
  from t c have c1: "cycles_run (snd (serve sample_backend sample_server retry_with_admin)) = 1"
    and c2: "cycles_run (serve_all sample_backend sample_server (sent ?h)) = 1"
    and c3: "cycles_run (scheduler_tick sample_backend 5000 sample_server) = 2"
    by simp_all
  from hs' hd g c1 c2 c3 show ?thesis by blast
qed

section \<open>Rendering\<close>

text \<open>
  C5. After a successful \<^verbatim>\<open>GET /api/current\<close> whose body has the shape the
  specification gives, the component renders one row per key/value pair of
  \<^verbatim>\<open>diagnostics.system_info\<close>, the \<^verbatim>\<open>analysis.status\<close> value, and the
  \<^verbatim>\<open>analysis.warnings\<close> items in the order received exactly when the list is not
  empty. The rendered tree is the same whatever \<^verbatim>\<open>diagnostics.metrics\<close> holds: the
  field is neither read nor rendered.
\<close>

theorem render_successful_body:
  assumes "net (sent s) api_current = Resolved r" and "ok r"
    and "body r = Parsed (api_body system_info metrics st ws)"
  shows "render eng (fetchData eng net s) =
     Inr (DiagnosticsCard (Shown (DiagnosticsView
       (map (\<lambda>(key, value). InfoRow key value) system_info)
       (Shown (AnalysisView (Some st)
          (if ws \<noteq> [] then Shown (WarningsList (zip [0..<length ws] ws))
           else Skipped (Some (JBool False))))))))"
  using assms
  by (simp add: fetchData_unfold fetchData_resume_def fetchData_try_def response_json_def
      render_def render_card_def render_diagnostics_def render_analysis_def render_warnings_def
      and_then_def api_body_def or_empty_object_def optional_length_def map_warnings_def)

theorem render_successful_body_witness:
  "ok current_ok \<and>
   render sample_engine (fetchData sample_engine (always (Resolved current_ok)) initial) =
     Inr (DiagnosticsCard (Shown (DiagnosticsView
       [InfoRow ''os'' (JStr ''Linux''), InfoRow ''hostname'' (JStr ''sentinel'')]
       (Shown (AnalysisView (Some (JStr ''warning''))
          (Shown (WarningsList [(0, JStr ''High CPU usage: 95%'')])))))))"
proof -
  have n: "always (Resolved current_ok) (sent initial) api_current = Resolved current_ok"
    by (simp add: always_def)
  have o: "ok current_ok" by (simp add: current_ok_def ok_def)
  have b: "body current_ok =
      Parsed (api_body [(''os'', JStr ''Linux''), (''hostname'', JStr ''sentinel'')]
        (JObj [(''cpu'', JNum 95)]) (JStr ''warning'') [JStr ''High CPU usage: 95%''])"
    by (simp add: current_ok_def sample_body_def)
  from render_successful_body
    [where net = "always (Resolved current_ok)" and s = initial and eng = sample_engine,
      OF n o b] o
  show ?thesis by simp
qed




section \<open>Mounting and polling\<close>

lemma advance_Suc_right: "advance eng net (Suc n) w = tick eng net (advance eng net n w)"
  by (induction n arbitrary: w) simp_all

lemma advance_no_timers:
  "intervals w = [] \<Longrightarrow> advance eng net n w = w\<lparr>clock := clock w + n\<rparr>"
  by (induction n arbitrary: w) (simp_all add: tick_def)

lemma polling_mount: "intervals w = [] \<Longrightarrow> polling 5000 w 0 (mount eng net w)"
  by (simp add: polling_def mount_def setInterval_def sent_fetchData)

lemma due_now:
  fixes n d :: nat
  assumes "0 < d"
  shows "(d + d * (n div d) = Suc n) = (Suc n mod d = 0)"
proof -
  have "d * (n div d) + n mod d = n" by (rule mult_div_mod_eq)
  then have "(d + d * (n div d) = Suc n) = (Suc (n mod d) = d)" by arith
  also have "\<dots> = (Suc n mod d = 0)" using assms by (auto simp: mod_Suc)
  finally show ?thesis .
qed

lemma polling_tick:
  assumes "polling d w n w'" and "0 < d"
  shows "polling d w (Suc n) (tick eng net w')"
proof (cases "Suc n mod d = 0")
  case True
  then have d: "Suc n div d = Suc (n div d)" by (simp add: div_Suc)
  have now: "d + d * (n div d) = Suc n"
    using True due_now [OF assms(2)] by simp
  from assms(1) show ?thesis
    unfolding polling_def tick_def Let_def d
    by (simp add: now sent_fetchData replicate_append_same)
next
  case False
  then have d: "Suc n div d = n div d" by (simp add: div_Suc)
  have now: "d + d * (n div d) \<noteq> Suc n"
    using False due_now [OF assms(2)] by simp
  from assms(1) show ?thesis
    unfolding polling_def tick_def Let_def d
    using now by simp
qed

lemma polling_advance:
  "intervals w = [] \<Longrightarrow> polling 5000 w n (advance eng net n (mount eng net w))"
proof (induction n)
  case 0
  then show ?case by (simp add: polling_mount)
next
  case (Suc n)
  then have "polling 5000 w n (advance eng net n (mount eng net w))" by simp
  then have "polling 5000 w (Suc n) (tick eng net (advance eng net n (mount eng net w)))"
    by (rule polling_tick) simp
  then show ?case by (simp only: advance_Suc_right)
qed

text \<open>
  C4. On a page with no other timer, \<open>n\<close> milliseconds after the component mounted it has
  sent \<open>1 + n div 5000\<close> requests \<^verbatim>\<open>GET /api/current\<close> and nothing else: one at the mount
  and one at each multiple of 5000 ms. Unmounting clears the interval: no timer is left,
  and however long the page lives on, no further request is sent.
\<close>

theorem mount_polls_every_5000_ms:
  assumes "intervals w = []"
  shows "sent (component (advance eng net n (mount eng net w))) =
           sent (component w) @ replicate (1 + n div 5000) api_current \<and>
         intervals (unmount (advance eng net n (mount eng net w))) = [] \<and>
         sent (component (advance eng net m (unmount (advance eng net n (mount eng net w))))) =
           sent (component (advance eng net n (mount eng net w)))"
proof -
  let ?w = "advance eng net n (mount eng net w)"
  have p: "polling 5000 w n ?w" using assms by (rule polling_advance)
  have u: "intervals (unmount ?w) = []" "component (unmount ?w) = component ?w"
    using p by (simp_all add: polling_def unmount_def clearInterval_def)
  have "advance eng net m (unmount ?w) = (unmount ?w)\<lparr>clock := clock (unmount ?w) + m\<rparr>"
    using u(1) by (rule advance_no_timers)
  then have "component (advance eng net m (unmount ?w)) = component ?w" using u(2) by simp
  with p u(1) show ?thesis by (simp add: polling_def)
qed

text \<open>
  The theorem on a fresh page: 12 seconds after the mount three requests have been sent
  (at 0, 5000 and 10000 ms); after the unmount a further minute adds none.
\<close>

theorem mount_polls_every_5000_ms_witness:
  "intervals fresh_page = [] \<and>
   sent (component (advance sample_engine (always (Resolved current_ok)) 12000
     (mount sample_engine (always (Resolved current_ok)) fresh_page))) =
     [api_current, api_current, api_current] \<and>
   sent (component (advance sample_engine (always (Resolved current_ok)) 60000
     (unmount (advance sample_engine (always (Resolved current_ok)) 12000
       (mount sample_engine (always (Resolved current_ok)) fresh_page))))) =
     [api_current, api_current, api_current]"
proof -
  have f: "intervals fresh_page = []" by (simp add: fresh_page_def)
  have r: "replicate (1 + 12000 div 5000) api_current = [api_current, api_current, api_current]"
    by (simp add: numeral_3_eq_3)
  from mount_polls_every_5000_ms
    [OF f, of sample_engine "always (Resolved current_ok)" 12000 60000] f r
  show ?thesis by (simp add: fresh_page_def initial_def)
qed

section \<open>The retry button\<close>










section \<open>The static panels\<close>

text \<open>
  C10. The CPU badge, the memory badge and each disk's bar are red if and only if the
  value shown exceeds 80. The constant is written into the component, which takes no
  Configuration: a CPU usage of 85 is red although it is below the configured
  \<^verbatim>\<open>CPU_USAGE_MAX\<close> of 90. With the values the component holds, nothing is red.
\<close>

theorem panels_red_above_80:
  "red (cpu_badge_class sd) = (usage (cpu sd) > 80) \<and>
   red (memory_badge_class sd) = (used (memory sd) > 80) \<and>
   red (disk_bar_class d) = (disk_usage d > 80) \<and>
   map (\<lambda>(n, u, cls). (n, u, red cls)) (disk_bars sd) =
     map (\<lambda>d. (name d, disk_usage d, disk_usage d > 80)) (disk sd) \<and>
   red (cpu_badge_class (systemData\<lparr>cpu := \<lparr>usage = 85, temperature = 62\<rparr>\<rparr>)) \<and>
   85 \<le> CPU_USAGE_MAX \<and>
   \<not> red (cpu_badge_class systemData) \<and> \<not> red (memory_badge_class systemData) \<and>
   map (\<lambda>(n, u, cls). red cls) (disk_bars systemData) = [False, False]"
proof -
  have c: "red (cpu_badge_class x) = (usage (cpu x) > 80)" for x
    by (simp add: cpu_badge_class_def red_def)
  have m: "red (memory_badge_class x) = (used (memory x) > 80)" for x
    by (simp add: memory_badge_class_def red_def)
  have b: "red (disk_bar_class x) = (disk_usage x > 80)" for x
    by (simp add: disk_bar_class_def red_def)
  show ?thesis
    by (simp add: c m b disk_bars_def comp_def systemData_def CPU_USAGE_MAX_def)
qed

section \<open>AlertDispatcher: edge-triggered alerts\<close>

lemma dedup_key_dispatch:
  "a \<in> set (dispatch d now result previous) \<Longrightarrow>
   dedup_key a \<in> set (new_breaches d result previous)"
  by (auto simp: dispatch_def)

lemma new_breaches_fresh:
  "p \<in> set (new_breaches d result previous) \<Longrightarrow> p \<notin> set (previously_breached d previous)"
  by (simp add: new_breaches_def)

lemma dispatch_suppressed:
  assumes "p \<in> set (previously_breached d previous)"
  shows "records_for p (dispatch d now result previous) = []"
proof -
  have "\<forall>a \<in> set (dispatch d now result previous). dedup_key a \<noteq> p"
    using assms dedup_key_dispatch new_breaches_fresh by blast
  then show ?thesis by (simp add: records_for_def filter_empty_conv)
qed

lemma cycles_stable_none:
  "p \<in> set (previously_breached d previous) \<Longrightarrow>
   \<forall>(now, r) \<in> set cs. p \<in> set (breaches_of d r) \<Longrightarrow>
   records_for p (cycles d previous cs) = []"
proof (induction cs arbitrary: previous)
  case Nil
  then show ?case by (simp add: records_for_def)
next
  case (Cons c cs)
  obtain now r where c: "c = (now, r)" by (cases c)
  from Cons.prems(2) c have r: "p \<in> set (previously_breached d (Some r))"
    by (simp add: previously_breached_def)
  from Cons.prems(2) have rest: "\<forall>(now, r) \<in> set cs. p \<in> set (breaches_of d r)" by simp
  have "records_for p (cycles d (Some r) cs) = []" using Cons.IH [OF r rest] .
  moreover have "records_for p (dispatch d now r previous) = []"
    using Cons.prems(1) by (rule dispatch_suppressed)
  ultimately show ?case using c by (simp add: records_for_def)
qed

lemma keys_dispatch:
  "map dedup_key (dispatch d now result previous) =
     filter (\<lambda>p. channel_enabled d (channel_of d p)) (new_breaches d result previous)"
  by (simp add: dispatch_def comp_def)

lemma distinct_keys_dispatch: "distinct (map dedup_key (dispatch d now result previous))"
  by (simp add: keys_dispatch new_breaches_def)

lemma distinct_map_filter_le:
  "distinct (map f xs) \<Longrightarrow> length (filter (\<lambda>x. f x = k) xs) \<le> 1"
  by (induction xs) (auto simp: filter_empty_conv image_iff)

lemma dispatch_at_most_one: "length (records_for p (dispatch d now result previous)) \<le> 1"
  unfolding records_for_def by (rule distinct_map_filter_le [OF distinct_keys_dispatch])

lemma distinct_member_filter:
  "distinct (map f xs) \<Longrightarrow> k \<in> f ` set xs \<Longrightarrow> length (filter (\<lambda>x. f x = k) xs) = 1"
  by (induction xs) (auto simp: filter_empty_conv image_iff)

lemma dispatch_new_breach:
  assumes "p \<notin> set (previously_breached d previous)" and "p \<in> set (breaches_of d result)"
    and "channel_enabled d (channel_of d p)"
  shows "length (records_for p (dispatch d now result previous)) = 1"
proof -
  have "p \<in> set (map dedup_key (dispatch d now result previous))"
    using assms by (simp only: keys_dispatch) (simp add: new_breaches_def)
  then have "p \<in> dedup_key ` set (dispatch d now result previous)" by simp
  then show ?thesis
    unfolding records_for_def by (rule distinct_member_filter [OF distinct_keys_dispatch])
qed

lemma cycles_first_only:
  assumes "\<forall>(now, r) \<in> set rest. p \<in> set (breaches_of d r)"
    and "p \<in> set (breaches_of d result)"
  shows "records_for p (cycles d previous ((now, result) # rest)) =
         records_for p (dispatch d now result previous)"
proof -
  have "records_for p (cycles d (Some result) rest) = []"
    using assms by (intro cycles_stable_none) (simp_all add: previously_breached_def)
  then show ?thesis by (simp add: records_for_def)
qed

lemma cycles_at_most_one:
  assumes "\<forall>(now, r) \<in> set cs. p \<in> set (breaches_of d r)"
  shows "length (records_for p (cycles d previous cs)) \<le> 1"
proof (cases cs)
  case Nil
  then show ?thesis by (simp add: records_for_def)
next
  case (Cons x rest)
  obtain now result where x: "x = (now, result)" by (cases x)
  from assms Cons x have "\<forall>(now, r) \<in> set rest. p \<in> set (breaches_of d r)"
    and "p \<in> set (breaches_of d result)" by simp_all
  then have "records_for p (cycles d previous ((now, result) # rest)) =
      records_for p (dispatch d now result previous)"
    by (rule cycles_first_only)
  with Cons x show ?thesis by (simp only: dispatch_at_most_one)
qed

text \<open>
  C6. For every result and previous result, \<open>dispatch\<close> emits no AlertRecord for a
  (category, severity) pair that was already in breach in \<open>previous\<close>. Hence over
  consecutive cycles in each of which the pair is in breach, at most one AlertRecord is
  emitted for the pair. Once the breach has cleared, a new breach of the pair (on an
  enabled channel) emits exactly one AlertRecord again.
\<close>

theorem dispatch_edge_triggered:
  "(p \<in> set (breaches_of d previous) \<longrightarrow>
      records_for p (dispatch d now result (Some previous)) = []) \<and>
   ((\<forall>(t, r) \<in> set cs. p \<in> set (breaches_of d r)) \<longrightarrow>
      length (records_for p (cycles d earlier cs)) \<le> 1) \<and>
   (p \<notin> set (previously_breached d earlier) \<and> p \<in> set (breaches_of d result) \<and>
    channel_enabled d (channel_of d p) \<longrightarrow>
      length (records_for p (dispatch d now result earlier)) = 1)"
proof (intro conjI impI)
  assume "p \<in> set (breaches_of d previous)"
  then show "records_for p (dispatch d now result (Some previous)) = []"
    by (intro dispatch_suppressed) (simp add: previously_breached_def)
next
  assume "\<forall>(t, r) \<in> set cs. p \<in> set (breaches_of d r)"
  then show "length (records_for p (cycles d earlier cs)) \<le> 1"
    by (rule cycles_at_most_one)
next
  assume "p \<notin> set (previously_breached d earlier) \<and> p \<in> set (breaches_of d result) \<and>
    channel_enabled d (channel_of d p)"
  then show "length (records_for p (dispatch d now result earlier)) = 1"
    by (intro dispatch_new_breach) simp_all
qed

text \<open>
  The theorem on a CPU warning: a second cycle with the warning emits nothing, three
  consecutive cycles with it emit at most one AlertRecord, and after a cycle without the
  warning its return emits one.
\<close>

theorem dispatch_edge_triggered_witness:
  "(CPU, Warning) \<in> set (breaches_of sample_dispatcher cpu_warning) \<and>
   records_for (CPU, Warning) (dispatch sample_dispatcher 2 cpu_warning (Some cpu_warning)) = [] \<and>
   length (records_for (CPU, Warning)
     (cycles sample_dispatcher None [(1, cpu_warning), (2, cpu_warning), (3, cpu_warning)])) \<le> 1 \<and>
   (CPU, Warning) \<notin> set (previously_breached sample_dispatcher (Some all_clear)) \<and>
   channel_enabled sample_dispatcher (channel_of sample_dispatcher (CPU, Warning)) \<and>
   length (records_for (CPU, Warning)
     (dispatch sample_dispatcher 5 cpu_warning (Some all_clear))) = 1"
proof -
  have b: "(CPU, Warning) \<in> set (breaches_of sample_dispatcher cpu_warning)"
    by (simp add: sample_dispatcher_def cpu_warning_def)
  then have s: "\<forall>(t, r) \<in> set [(1, cpu_warning), (2, cpu_warning), (3, cpu_warning)].
      (CPU, Warning) \<in> set (breaches_of sample_dispatcher r)"
    by simp
  have n: "(CPU, Warning) \<notin> set (previously_breached sample_dispatcher (Some all_clear))"
    by (simp add: previously_breached_def sample_dispatcher_def all_clear_def)
  have e: "channel_enabled sample_dispatcher (channel_of sample_dispatcher (CPU, Warning))"
    by (simp add: sample_dispatcher_def)
  note t = dispatch_edge_triggered
    [of "(CPU, Warning)" sample_dispatcher cpu_warning 2 cpu_warning
      "[(1, cpu_warning), (2, cpu_warning), (3, cpu_warning)]" None]
  note u = dispatch_edge_triggered
    [of "(CPU, Warning)" sample_dispatcher cpu_warning 5 cpu_warning "[]" "Some all_clear"]
  from t b have "records_for (CPU, Warning)
      (dispatch sample_dispatcher 2 cpu_warning (Some cpu_warning)) = []"
    by blast
  moreover from t s have "length (records_for (CPU, Warning)
      (cycles sample_dispatcher None [(1, cpu_warning), (2, cpu_warning), (3, cpu_warning)])) \<le> 1"
    by blast
  moreover from u b n e have "length (records_for (CPU, Warning)
      (dispatch sample_dispatcher 5 cpu_warning (Some all_clear))) = 1"
    by blast
  ultimately show ?thesis using b n e by blast
qed

end
